theory Spec2Isabelle
  imports Complex_Main
begin

section \<open>The recently-played pipeline (src/recently\_played.py)\<close>

text \<open>
  The program is a linear pipeline: \<open>extract_recently_played\<close>, \<open>transform_data\<close>,
  \<open>validate_data\<close>, \<open>load_data\<close>, run once by \<open>main\<close>. Every function is
  embedded as a HOL function of the same name. What the Python does beyond returning a
  value is explicit: an exception is the \<open>Inl\<close> branch of a sum, printing and the
  database are fields of a \<open>world\<close> record that each function takes and returns.
\<close>

subsection \<open>Exceptions\<close>

text \<open>
  \<open>PrimaryKeyError\<close>, \<open>NullValuesError\<close> and \<open>InvalidTimestampError\<close> are the three
  classes the source defines (lines 16-25). \<open>ValueError\<close>, \<open>TypeError\<close> and
  \<open>IndexError\<close> are Python's built-in ones; \<open>IntegrityError\<close> is
  \<open>sqlalchemy.exc.IntegrityError\<close>, \<open>DatabaseError\<close> is \<open>sqlite3.DatabaseError\<close>
  and \<open>PandasDatabaseError\<close> is \<open>pandas.errors.DatabaseError\<close>, a class of its own.
  \<open>ExtractionError\<close> is a name of the specification's error taxonomy only: the source
  defines no such class and no equation below produces it.
\<close>

datatype error =
    PrimaryKeyError
  | NullValuesError
  | InvalidTimestampError
  | ValueError
  | TypeError
  | IndexError
  | IntegrityError
  | DatabaseError
  | PandasDatabaseError
  | ExtractionError

subsection \<open>Data\<close>

text \<open>
  A field of a record is text or null: \<open>Some s\<close> is the Python string \<open>s\<close>
  (the empty string is \<open>Some []\<close>), \<open>None\<close> is Python's \<open>None\<close>, the one value
  that \<open>isnull\<close> reports in a text column.
\<close>

type_synonym cell = "string option"

text \<open>
  One row of the DataFrame built at line 88, with its four columns in the order of the
  \<open>columns=\<close> argument. A DataFrame is the list of its rows, in order.
\<close>

record play_record =
  song_name :: cell
  artist_name :: cell
  played_at :: cell
  timestamp :: cell

type_synonym dataframe = "play_record list"

text \<open>
  The raw payload, as far as \<open>transform_data\<close> reads it:
  \<open>data["items"]\<close>, and in each item \<open>["track"]["name"]\<close>,
  \<open>["track"]["album"]["artists"][0]["name"]\<close> and \<open>["played_at"]\<close>. The
  dictionaries have these keys and the leaves are text or null; what an item can still
  lack is a first artist (an empty \<open>artists\<close> list) and a \<open>played_at\<close> that can be
  sliced (a null).
\<close>

datatype artist = Artist (name: cell)

datatype album = Album (artists: "artist list")

datatype track = Track (track_name: cell) (album: album)

datatype play_event = PlayEvent (track: track) (event_played_at: cell)

datatype payload = Payload (items: "play_event list")

text \<open>A naive \<open>datetime.datetime\<close>: seven fields, no time zone.\<close>

record datetime =
  year :: nat
  month :: nat
  day :: nat
  hour :: nat
  minute :: nat
  second :: nat
  microsecond :: nat

text \<open>
  The database file \<open>my_played_tracks.sqlite\<close>. The store of the specification is the
  table \<open>my_played_tracks\<close> with its primary key on \<open>played_at\<close>: \<open>None\<close> when the
  table has not been created yet, \<open>Some rows\<close> with the rows in insertion order
  otherwise. A file that SQLite cannot read as a database is \<open>NotADatabase\<close>.
\<close>

type_synonym store = "play_record list option"

datatype db_file = NotADatabase | Database store

text \<open>What \<open>print\<close> writes: a line of text, or a DataFrame (line 179).\<close>

datatype line = Text string | Frame dataframe

text \<open>
  Everything outside the process. \<open>upstream\<close> is the streaming service:
  what \<open>current_user_recently_played(after=t)\<close> answers, \<open>None\<close> standing for a falsy
  answer (\<open>None\<close> or an empty dictionary). \<open>requests\<close> lists the values of \<open>after\<close>
  sent so far, \<open>stdout\<close> the lines printed so far, \<open>open_conns\<close> counts the
  \<open>sqlite3\<close> connections that are open. \<open>pandas_wraps\<close> is the installed pandas:
  true when its SQL layer wraps every exception of a statement in
  \<open>pandas.errors.DatabaseError\<close> (pandas 3), false when the exception of SQLAlchemy
  passes through as it is (pandas 2).
\<close>

record world =
  upstream :: "int \<Rightarrow> payload option"
  requests :: "int list"
  stdout :: "line list"
  db :: db_file
  open_conns :: nat
  pandas_wraps :: bool

definition print_line :: "line \<Rightarrow> world \<Rightarrow> world" where
  "print_line l w = w\<lparr>stdout := stdout w @ [l]\<rparr>"

subsection \<open>The standard library: \<open>replace\<close> and \<open>strptime\<close>\<close>

text \<open>\<open>d.replace(hour=0, minute=0, second=0, microsecond=0)\<close> (lines 44 and 122).\<close>

definition replace_midnight :: "datetime \<Rightarrow> datetime" where
  "replace_midnight d = d\<lparr>hour := 0, minute := 0, second := 0, microsecond := 0\<rparr>"

text \<open>
  \<open>datetime.strptime(ts, "%Y-%m-%d")\<close> compiles the format to the regular expression
  \<^verbatim>\<open>(?P<Y>\d\d\d\d)-(?P<m>1[0-2]|0[1-9]|[1-9])-(?P<d>3[0-1]|[1-2]\d|0[1-9]|[1-9]| [1-9])\<close>,
  matches it at the start of the text, raises \<open>ValueError\<close> when it does not match or
  when text remains after the match, and builds the date, which raises \<open>ValueError\<close>
  when the year is 0 or the day is beyond the month's last. Each group below lists its
  matches in the order of its alternatives, as a number and the text left. Characters
  are 8-bit here, so the digits are the ten ASCII ones: the decimal digits of other
  scripts, which \<^verbatim>\<open>\d\<close> matches as well, have no counterpart in this model.
\<close>

definition digit :: "char \<Rightarrow> nat option" where
  "digit c = map_of [(CHR ''0'', 0), (CHR ''1'', 1), (CHR ''2'', 2), (CHR ''3'', 3),
     (CHR ''4'', 4), (CHR ''5'', 5), (CHR ''6'', 6), (CHR ''7'', 7), (CHR ''8'', 8),
     (CHR ''9'', 9)] c"

definition one_digit :: "nat \<Rightarrow> nat \<Rightarrow> string \<Rightarrow> (nat \<times> string) list" where
  "one_digit lo hi s =
     (case s of
        [] \<Rightarrow> []
      | c # rest \<Rightarrow>
          (case digit c of
             None \<Rightarrow> []
           | Some n \<Rightarrow> if lo \<le> n \<and> n \<le> hi then [(n, rest)] else []))"

definition two_digits :: "nat \<Rightarrow> nat \<Rightarrow> nat \<Rightarrow> nat \<Rightarrow> string \<Rightarrow> (nat \<times> string) list" where
  "two_digits lo1 hi1 lo2 hi2 s =
     concat (map (\<lambda>(a, r). map (\<lambda>(b, r'). (10 * a + b, r')) (one_digit lo2 hi2 r))
       (one_digit lo1 hi1 s))"

definition group_Y :: "string \<Rightarrow> (nat \<times> string) list" where
  "group_Y s =
     concat (map (\<lambda>(a, r). map (\<lambda>(b, r'). (100 * a + b, r')) (two_digits 0 9 0 9 r))
       (two_digits 0 9 0 9 s))"

definition group_m :: "string \<Rightarrow> (nat \<times> string) list" where
  "group_m s = two_digits 1 1 0 2 s @ two_digits 0 0 1 9 s @ one_digit 1 9 s"

definition group_d :: "string \<Rightarrow> (nat \<times> string) list" where
  "group_d s =
     two_digits 3 3 0 1 s @ two_digits 1 2 0 9 s @ two_digits 0 0 1 9 s @ one_digit 1 9 s
     @ (case s of c # rest \<Rightarrow> if c = CHR '' '' then one_digit 1 9 rest else [] | [] \<Rightarrow> [])"

definition hyphen :: "string \<Rightarrow> string list" where
  "hyphen s = (case s of c # rest \<Rightarrow> if c = CHR ''-'' then [rest] else [] | [] \<Rightarrow> [])"

text \<open>
  All matches of the whole expression, first the one the backtracking matcher returns:
  year, month, day and the text left after the match.
\<close>

definition format_regex :: "string \<Rightarrow> (nat \<times> nat \<times> nat \<times> string) list" where
  "format_regex s =
     concat (map (\<lambda>(y, r1).
       concat (map (\<lambda>r2.
         concat (map (\<lambda>(m, r3).
           concat (map (\<lambda>r4.
             map (\<lambda>(d, r5). (y, m, d, r5)) (group_d r4)) (hyphen r3))) (group_m r2)))
         (hyphen r1))) (group_Y s))"

definition is_leap :: "nat \<Rightarrow> bool" where
  "is_leap y = (y mod 4 = 0 \<and> (y mod 100 \<noteq> 0 \<or> y mod 400 = 0))"

definition days_in_month :: "nat \<Rightarrow> nat \<Rightarrow> nat" where
  "days_in_month y m =
     (if m = 2 then (if is_leap y then 29 else 28)
      else if m = 4 \<or> m = 6 \<or> m = 9 \<or> m = 11 then 30 else 31)"

definition strptime :: "string \<Rightarrow> error + datetime" where
  "strptime s =
     (case format_regex s of
        [] \<Rightarrow> Inl ValueError
      | (y, m, d, rest) # _ \<Rightarrow>
          if rest \<noteq> [] then Inl ValueError
          else if y < 1 \<or> m < 1 \<or> 12 < m \<or> d < 1 \<or> days_in_month y m < d
          then Inl ValueError
          else Inr \<lparr>year = y, month = m, day = d, hour = 0, minute = 0, second = 0,
                    microsecond = 0\<rparr>)"

subsection \<open>\<open>validate_data\<close> (lines 91-126)\<close>

text \<open>
  \<open>any(strptime(ts, "%Y-%m-%d") != today for ts in df["timestamp"])\<close>: the generator
  is consumed from the left and \<open>any\<close> stops at the first true element, so a
  timestamp is parsed only if every one before it was today's date. \<open>strptime\<close> raises
  \<open>TypeError\<close> on \<open>None\<close>.
\<close>

fun any_not_today :: "datetime \<Rightarrow> cell list \<Rightarrow> error + bool" where
  "any_not_today today [] = Inr False"
| "any_not_today today (ts # rest) =
     (case ts of
        None \<Rightarrow> Inl TypeError
      | Some s \<Rightarrow>
          (case strptime s of
             Inl e \<Rightarrow> Inl e
           | Inr d \<Rightarrow> if d \<noteq> today then Inr True else any_not_today today rest))"

text \<open>\<open>df.isnull().values.any()\<close>: some cell of some row is null.\<close>

definition isnull_any :: "dataframe \<Rightarrow> bool" where
  "isnull_any df =
     list_ex (\<lambda>r. song_name r = None \<or> artist_name r = None \<or> played_at r = None
                \<or> timestamp r = None) df"

text \<open>
  \<open>now\<close> is what \<open>datetime.now()\<close> returns at line 122. \<open>is_unique\<close> compares the
  values of the column, two nulls being equal.
\<close>

definition validate_data :: "datetime \<Rightarrow> dataframe \<Rightarrow> world \<Rightarrow> (error + bool) \<times> world" where
  "validate_data now df w =
     (if df = [] then (Inr False, print_line (Text ''No songs downloaded'') w)
      else if \<not> distinct (map played_at df) then (Inl PrimaryKeyError, w)
      else if isnull_any df then (Inl NullValuesError, w)
      else
        (case any_not_today (replace_midnight now) (map timestamp df) of
           Inl e \<Rightarrow> (Inl e, w)
         | Inr True \<Rightarrow> (Inl InvalidTimestampError, w)
         | Inr False \<Rightarrow> (Inr True, w)))"

subsection \<open>\<open>extract_recently_played\<close> (lines 28-51)\<close>

text \<open>
  \<open>d.timestamp()\<close> of a naive datetime: the whole seconds since the epoch of the
  local wall-clock time \<open>d\<close>, which the platform's time zone rules decide and which
  is the parameter \<open>mktime\<close> here, plus the microseconds as a fraction. \<open>int\<close>
  truncates towards zero.
\<close>

definition dt_timestamp :: "(datetime \<Rightarrow> int) \<Rightarrow> datetime \<Rightarrow> rat" where
  "dt_timestamp mktime d = of_int (mktime d) + of_nat (microsecond d) / 1000000"

definition py_int :: "rat \<Rightarrow> int" where
  "py_int x = (if x < 0 then \<lceil>x\<rceil> else \<lfloor>x\<rfloor>)"

text \<open>
  \<open>now\<close> is what \<open>datetime.now()\<close> returns at line 43; \<open>after\<close> is the value the
  source calls \<open>timestamp\<close> and passes as \<open>after=\<close>. The request is recorded in
  the world, and a falsy answer raises \<open>ValueError\<close> (line 49).
\<close>

definition extract_recently_played ::
  "(datetime \<Rightarrow> int) \<Rightarrow> datetime \<Rightarrow> world \<Rightarrow> (error + payload) \<times> world" where
  "extract_recently_played mktime now w =
     (let midnight = replace_midnight now;
          after = py_int (dt_timestamp mktime midnight) * 10 ^ 3;
          w' = w\<lparr>requests := requests w @ [after]\<rparr>
      in case upstream w after of
           None \<Rightarrow> (Inl ValueError, w')
         | Some data \<Rightarrow> (Inr data, w'))"

subsection \<open>\<open>transform_data\<close> (lines 54-88)\<close>

text \<open>
  The loop of lines 73-77 appends to four lists. \<open>artists[0]\<close> raises \<open>IndexError\<close>
  on an empty list, and slicing \<open>played_at\<close> raises \<open>TypeError\<close> when it is
  \<open>None\<close>; either ends the function.
\<close>

fun transform_loop ::
  "play_event list \<Rightarrow> cell list \<times> cell list \<times> cell list \<times> cell list
   \<Rightarrow> error + cell list \<times> cell list \<times> cell list \<times> cell list" where
  "transform_loop [] acc = Inr acc"
| "transform_loop (song # rest) (song_names, artist_names, played_ats, timestamps) =
     (case artists (album (track song)) of
        [] \<Rightarrow> Inl IndexError
      | a # _ \<Rightarrow>
          (case event_played_at song of
             None \<Rightarrow> Inl TypeError
           | Some p \<Rightarrow>
               transform_loop rest
                 (song_names @ [track_name (track song)], artist_names @ [name a],
                  played_ats @ [Some p], timestamps @ [Some (take 10 p)])))"

text \<open>
  \<open>pd.DataFrame(song_dict, columns=[...])\<close>: row \<open>i\<close> takes element \<open>i\<close> of each of
  the four lists, in the order of \<open>columns\<close>; lists of different lengths raise
  \<open>ValueError\<close>.
\<close>

definition DataFrame ::
  "cell list \<Rightarrow> cell list \<Rightarrow> cell list \<Rightarrow> cell list \<Rightarrow> error + dataframe" where
  "DataFrame song_names artist_names played_ats timestamps =
     (if length artist_names = length song_names \<and> length played_ats = length song_names
         \<and> length timestamps = length song_names
      then Inr (map (\<lambda>(s, a, p, t).
                  \<lparr>song_name = s, artist_name = a, played_at = p, timestamp = t\<rparr>)
                (zip song_names (zip artist_names (zip played_ats timestamps))))
      else Inl ValueError)"

definition transform_data :: "payload \<Rightarrow> error + dataframe" where
  "transform_data data =
     (case transform_loop (items data) ([], [], [], []) of
        Inl e \<Rightarrow> Inl e
      | Inr (song_names, artist_names, played_ats, timestamps) \<Rightarrow>
          DataFrame song_names artist_names played_ats timestamps)"

subsection \<open>\<open>load_data\<close> (lines 130-166)\<close>

text \<open>
  \<open>CREATE TABLE IF NOT EXISTS\<close> on the connection opened at line 141: it returns the
  rows of the table, empty when it has just been created, and raises
  \<open>sqlite3.DatabaseError\<close> on a file that is not a database (the connection itself
  opens lazily and does not read the file).
\<close>

definition create_table_if_not_exists :: "db_file \<Rightarrow> error + play_record list" where
  "create_table_if_not_exists f =
     (case f of
        NotADatabase \<Rightarrow> Inl DatabaseError
      | Database None \<Rightarrow> Inr []
      | Database (Some rows) \<Rightarrow> Inr rows)"

text \<open>
  The primary key: a new row conflicts with the table when its \<open>played_at\<close> is already
  there. SQLite treats nulls as distinct from each other, and accepts them in a primary
  key that is not an integer one, so a null \<open>played_at\<close> never conflicts.
\<close>

definition conflicts :: "play_record list \<Rightarrow> play_record \<Rightarrow> bool" where
  "conflicts rows r = (played_at r \<noteq> None \<and> played_at r \<in> set (map played_at rows))"

text \<open>
  The rows of the batch are inserted in order until one conflicts, which SQLAlchemy
  reports as its \<open>IntegrityError\<close>.
\<close>

fun insert_rows :: "play_record list \<Rightarrow> dataframe \<Rightarrow> error option \<times> play_record list" where
  "insert_rows rows [] = (None, rows)"
| "insert_rows rows (r # rs) =
     (if conflicts rows r then (Some IntegrityError, rows) else insert_rows (rows @ [r]) rs)"

text \<open>
  \<open>df.to_sql("my_played_tracks", engine, index=False, if_exists="append")\<close>. What the
  table holds after a conflict is the library's choice and a parameter here: with
  \<open>Rollback\<close> the transaction is undone and the table is as before the call, with
  \<open>KeepPreceding\<close> the rows inserted before the conflicting one stay, as the
  specification describes it. The exception that leaves \<open>to_sql\<close> is the one of
  SQLAlchemy, or \<open>pandas.errors.DatabaseError\<close> in its place when pandas wraps.
\<close>

datatype conflict_policy = Rollback | KeepPreceding

definition to_sql ::
  "conflict_policy \<Rightarrow> bool \<Rightarrow> dataframe \<Rightarrow> play_record list
   \<Rightarrow> error option \<times> play_record list" where
  "to_sql policy wraps df rows =
     (case insert_rows rows df of
        (None, rows') \<Rightarrow> (None, rows')
      | (Some e, rows') \<Rightarrow>
          (Some (if wraps then PandasDatabaseError else e),
           case policy of Rollback \<Rightarrow> rows | KeepPreceding \<Rightarrow> rows'))"

text \<open>
  \<open>create_engine\<close> (line 140) connects to nothing yet; the engine's own connection
  lives inside \<open>to_sql\<close>. \<open>sqlite3.connect\<close> opens a connection (line 141). The
  \<open>CREATE TABLE\<close> statement of
  line 155 runs before the \<open>try\<close>, so an exception there leaves the function at once.
  Inside the \<open>try\<close>, \<open>sqlalchemy.exc.IntegrityError\<close> is caught and logged (line
  161), any other exception goes on to the caller, and the \<open>finally\<close> block closes
  the connection in each case.
\<close>

definition load_data :: "conflict_policy \<Rightarrow> dataframe \<Rightarrow> world \<Rightarrow> (error + unit) \<times> world" where
  "load_data policy df w =
     (let w1 = w\<lparr>open_conns := open_conns w + 1\<rparr>
      in case create_table_if_not_exists (db w1) of
           Inl e \<Rightarrow> (Inl e, w1)
         | Inr rows \<Rightarrow>
             (let w2 = print_line (Text ''Opened database successfully'')
                         (w1\<lparr>db := Database (Some rows)\<rparr>);
                  (raised, rows') = to_sql policy (pandas_wraps w) df rows;
                  w3 = w2\<lparr>db := Database (Some rows')\<rparr>;
                  (result, w4) =
                    (case raised of
                       None \<Rightarrow> (Inr (), w3)
                     | Some e \<Rightarrow>
                         if e = IntegrityError
                         then (Inr (), print_line (Text ''Data already exists in the database.'') w3)
                         else (Inl e, w3))
              in (result, print_line (Text ''Closed database successfully.'')
                            (w4\<lparr>open_conns := open_conns w4 - 1\<rparr>))))"

subsection \<open>\<open>main\<close> (lines 169-185)\<close>

text \<open>
  \<open>now1\<close> and \<open>now2\<close> are the two readings of the clock, in
  \<open>extract_recently_played\<close> and in \<open>validate_data\<close>. No exception is caught here.
\<close>

definition main ::
  "(datetime \<Rightarrow> int) \<Rightarrow> conflict_policy \<Rightarrow> datetime \<Rightarrow> datetime \<Rightarrow> world
   \<Rightarrow> (error + unit) \<times> world" where
  "main mktime policy now1 now2 w =
     (case extract_recently_played mktime now1 w of
        (Inl e, w1) \<Rightarrow> (Inl e, w1)
      | (Inr data, w1) \<Rightarrow>
          (case transform_data data of
             Inl e \<Rightarrow> (Inl e, w1)
           | Inr df \<Rightarrow>
               (case validate_data now2 df (print_line (Frame df) w1) of
                  (Inl e, w3) \<Rightarrow> (Inl e, w3)
                | (Inr proceed, w3) \<Rightarrow>
                    if proceed
                    then (case load_data policy df w3 of
                            (Inl e, w4) \<Rightarrow> (Inl e, w4)
                          | (Inr u, w4) \<Rightarrow>
                              (Inr (), print_line (Text ''ETL process completed.'') w4))
                    else (Inr (), w3))))"

subsection \<open>Notions used in the statements\<close>

text \<open>
  A timestamp has today's date when it is text that \<open>strptime\<close> parses to the local
  midnight of the day of \<open>now\<close>: a comparison of dates, not of texts.
\<close>

definition todays_date :: "datetime \<Rightarrow> cell \<Rightarrow> bool" where
  "todays_date now ts =
     (case ts of None \<Rightarrow> False | Some s \<Rightarrow> strptime s = Inr (replace_midnight now))"

subsection \<open>Concrete inputs\<close>

text \<open>
  A run on 1 January 2024 at 15:30:45 local time, on a machine whose local time is UTC
  (\<open>example_mktime\<close> is right for the days of January 2024), against a service that
  gives the same answer to every request, with no table in the database yet and
  pandas 2 installed.
\<close>

definition example_now :: datetime where
  "example_now = \<lparr>year = 2024, month = 1, day = 1, hour = 15, minute = 30, second = 45,
                    microsecond = 250\<rparr>"

definition example_mktime :: "datetime \<Rightarrow> int" where
  "example_mktime d =
     1704067200 + int ((((day d - 1) * 24 + hour d) * 60 + minute d) * 60 + second d)"

definition answering :: "payload option \<Rightarrow> world" where
  "answering answer =
     \<lparr>upstream = (\<lambda>after. answer), requests = [], stdout = [], db = Database None,
      open_conns = 0, pandas_wraps = False\<rparr>"

text \<open>The same world with pandas 3 installed.\<close>

definition pandas_3 :: world where
  "pandas_3 = (answering None)\<lparr>pandas_wraps := True\<rparr>"

definition not_a_database :: world where
  "not_a_database = (answering None)\<lparr>db := NotADatabase\<rparr>"

definition song_A :: play_event where
  "song_A = PlayEvent (Track (Some ''A'') (Album [Artist (Some ''X''), Artist (Some ''Z'')]))
              (Some ''2024-01-01T10:00:00Z'')"

definition song_B :: play_event where
  "song_B = PlayEvent (Track (Some ''B'') (Album [Artist (Some ''Y'')]))
              (Some ''2024-01-01T11:00:00Z'')"

definition song_B_same_instant :: play_event where
  "song_B_same_instant = PlayEvent (Track (Some ''B'') (Album [Artist (Some ''Y'')]))
              (Some ''2024-01-01T10:00:00Z'')"

definition record_A :: play_record where
  "record_A = \<lparr>song_name = Some ''A'', artist_name = Some ''X'',
                played_at = Some ''2024-01-01T10:00:00Z'', timestamp = Some ''2024-01-01''\<rparr>"

definition record_B :: play_record where
  "record_B = \<lparr>song_name = Some ''B'', artist_name = Some ''Y'',
                played_at = Some ''2024-01-01T11:00:00Z'', timestamp = Some ''2024-01-01''\<rparr>"

definition record_B_same_instant :: play_record where
  "record_B_same_instant = \<lparr>song_name = Some ''B'', artist_name = Some ''Y'',
                played_at = Some ''2024-01-01T10:00:00Z'', timestamp = Some ''2024-01-01''\<rparr>"

text \<open>
  A record without an artist, one with an empty title, one of the day before and two
  whose timestamp is not a date.
\<close>

definition record_no_artist :: play_record where
  "record_no_artist = \<lparr>song_name = Some ''A'', artist_name = None,
                played_at = Some ''2024-01-01T10:00:00Z'', timestamp = Some ''2024-01-01''\<rparr>"

definition record_empty_title :: play_record where
  "record_empty_title = \<lparr>song_name = Some [], artist_name = Some ''X'',
                played_at = Some ''2024-01-01T10:00:00Z'', timestamp = Some ''2024-01-01''\<rparr>"

definition record_yesterday :: play_record where
  "record_yesterday = \<lparr>song_name = Some ''C'', artist_name = Some ''X'',
                played_at = Some ''2023-12-31T23:59:00Z'', timestamp = Some ''2023-12-31''\<rparr>"

definition record_malformed :: play_record where
  "record_malformed = \<lparr>song_name = Some ''D'', artist_name = Some ''X'',
                played_at = Some ''garbage'', timestamp = Some ''garbage''\<rparr>"

definition record_no_date :: play_record where
  "record_no_date = \<lparr>song_name = Some ''E'', artist_name = Some ''X'',
                played_at = Some ''2024-01-01T12:00:00Z'', timestamp = Some []\<rparr>"

section \<open>Auxiliary facts\<close>

lemmas strptime_eval = strptime_def format_regex_def group_Y_def group_m_def group_d_def
  hyphen_def two_digits_def one_digit_def digit_def days_in_month_def is_leap_def

lemmas example_records = record_A_def record_B_def record_B_same_instant_def
  record_no_artist_def record_empty_title_def record_yesterday_def record_malformed_def
  record_no_date_def

lemmas example_run = example_now_def example_mktime_def answering_def replace_midnight_def
  print_line_def

subsection \<open>The request of the extractor\<close>

lemma py_int_midnight:
  "py_int (dt_timestamp mktime (replace_midnight now)) = mktime (replace_midnight now)"
proof -
  have "microsecond (replace_midnight now) = 0"
    by (simp add: replace_midnight_def)
  then show ?thesis
    by (simp add: py_int_def dt_timestamp_def)
qed

lemma extract_eq:
  "extract_recently_played mktime now w =
     (case upstream w (mktime (replace_midnight now) * 1000) of
        None \<Rightarrow>
          (Inl ValueError, w\<lparr>requests := requests w @ [mktime (replace_midnight now) * 1000]\<rparr>)
      | Some data \<Rightarrow>
          (Inr data, w\<lparr>requests := requests w @ [mktime (replace_midnight now) * 1000]\<rparr>))"
  by (simp add: extract_recently_played_def Let_def py_int_midnight split: option.split)

subsection \<open>The checks of the validator\<close>


lemma any_not_today_append:
  "\<forall>ts\<in>set pre. \<exists>s. ts = Some s \<and> strptime s = Inr today \<Longrightarrow>
   any_not_today today (pre @ rest) = any_not_today today rest"
  by (induction pre) auto

lemma isnull_any_iff:
  "isnull_any df \<longleftrightarrow>
     (\<exists>r\<in>set df. song_name r = None \<or> artist_name r = None \<or> played_at r = None
                 \<or> timestamp r = None)"
  by (simp add: isnull_any_def list_ex_iff)

lemma validate_data_True_iff:
  "fst (validate_data now df w) = Inr True \<longleftrightarrow>
     df \<noteq> [] \<and> distinct (map played_at df) \<and> \<not> isnull_any df \<and>
     any_not_today (replace_midnight now) (map timestamp df) = Inr False"
  by (auto simp: validate_data_def split: sum.splits bool.splits)

text \<open>
  A timestamp that is a date, but not today's, is reported as the validator's own
  exception when every record before it has today's date.
\<close>

lemma stale_timestamp_InvalidTimestampError:
  assumes "df = before @ r # rest" and "distinct (map played_at df)" and "\<not> isnull_any df"
    and "\<forall>x\<in>set before. todays_date now (timestamp x)"
    and "timestamp r = Some s" and "strptime s = Inr d" and "d \<noteq> replace_midnight now"
  shows "validate_data now df w = (Inl InvalidTimestampError, w)"
proof -
  have "\<forall>ts\<in>set (map timestamp before).
          \<exists>s. ts = Some s \<and> strptime s = Inr (replace_midnight now)"
    using assms(4) by (auto simp: todays_date_def split: option.splits)
  from any_not_today_append[OF this]
  have "any_not_today (replace_midnight now) (map timestamp df) = Inr True"
    using assms(1,5,6,7) by simp
  then show ?thesis
    using assms(1,2,3) by (simp add: validate_data_def)
qed

subsection \<open>The loop of the transformer\<close>

lemma transform_loop_acc:
  assumes "\<forall>e\<in>set es. artists (album (track e)) \<noteq> [] \<and> event_played_at e \<noteq> None"
  shows "transform_loop es (sn, an, pa, ts) =
     Inr (sn @ map (\<lambda>e. track_name (track e)) es,
          an @ map (\<lambda>e. name (hd (artists (album (track e))))) es,
          pa @ map event_played_at es,
          ts @ map (\<lambda>e. map_option (take 10) (event_played_at e)) es)"
  using assms
proof (induction es arbitrary: sn an pa ts)
  case Nil
  then show ?case by simp
next
  case (Cons e es)
  then obtain a as p where "artists (album (track e)) = a # as" "event_played_at e = Some p"
    by (cases "artists (album (track e))"; cases "event_played_at e") auto
  with Cons show ?case by simp
qed

lemma DataFrame_maps:
  "DataFrame (map f1 es) (map f2 es) (map f3 es) (map f4 es) =
     Inr (map (\<lambda>e. \<lparr>song_name = f1 e, artist_name = f2 e, played_at = f3 e,
                     timestamp = f4 e\<rparr>) es)"
  by (simp add: DataFrame_def zip_map_map zip_same_conv_map)

subsection \<open>The bulk append of the loader\<close>

lemma insert_rows_prefix:
  "insert_rows rows df = (x, rows') \<Longrightarrow> \<exists>k\<le>length df. rows' = rows @ take k df"
proof (induction df arbitrary: rows)
  case Nil
  then show ?case by simp
next
  case (Cons r rs)
  show ?case
  proof (cases "conflicts rows r")
    case True
    with Cons.prems have "rows' = rows" by simp
    then show ?thesis by (intro exI[of _ 0]) simp
  next
    case False
    with Cons.prems have "insert_rows (rows @ [r]) rs = (x, rows')" by simp
    from Cons.IH[OF this] obtain k where "k \<le> length rs" "rows' = (rows @ [r]) @ take k rs"
      by blast
    then show ?thesis by (intro exI[of _ "Suc k"]) simp
  qed
qed

lemma insert_rows_error: "insert_rows rows df = (Some e, rows') \<Longrightarrow> e = IntegrityError"
  by (induction df arbitrary: rows) (auto split: if_splits)

lemma insert_rows_again:
  assumes "insert_rows rows df = (x, rows')" and "df \<noteq> []" and "played_at (hd df) \<noteq> None"
  shows "insert_rows rows' df = (Some IntegrityError, rows')"
proof -
  obtain r rs where df: "df = r # rs" using assms(2) by (cases df) auto
  show ?thesis
  proof (cases "conflicts rows r")
    case True
    then show ?thesis using assms(1) df by simp
  next
    case False
    then have "insert_rows (rows @ [r]) rs = (x, rows')" using assms(1) df by simp
    from insert_rows_prefix[OF this] have "r \<in> set rows'" by auto
    then have "conflicts rows' r" using assms(3) df by (simp add: conflicts_def)
    then show ?thesis using df by simp
  qed
qed

lemma insert_rows_distinct:
  "insert_rows rows df = (x, rows') \<Longrightarrow> \<forall>r\<in>set df. played_at r \<noteq> None \<Longrightarrow>
   distinct (map played_at rows) \<Longrightarrow> distinct (map played_at rows')"
  by (induction df arbitrary: rows) (auto simp: conflicts_def split: if_splits)

lemma to_sql_again:
  assumes "to_sql policy wraps df rows = (x, rows')" and "df \<noteq> []"
    and "played_at (hd df) \<noteq> None"
  shows "to_sql policy wraps df rows' =
     (Some (if wraps then PandasDatabaseError else IntegrityError), rows')"
proof (cases "insert_rows rows df")
  case (Pair y rows1)
  show ?thesis
  proof (cases y)
    case None
    with Pair assms(1) have "rows' = rows1" by (simp add: to_sql_def)
    with insert_rows_again[OF Pair assms(2,3)] show ?thesis
      by (cases policy) (simp_all add: to_sql_def)
  next
    case (Some e)
    with Pair have e: "e = IntegrityError" by (simp add: insert_rows_error)
    show ?thesis
    proof (cases policy)
      case Rollback
      with Pair Some assms(1) have "rows' = rows" by (simp add: to_sql_def)
      with Pair Some e Rollback show ?thesis by (simp add: to_sql_def)
    next
      case KeepPreceding
      with Pair Some assms(1) have "rows' = rows1" by (simp add: to_sql_def)
      with insert_rows_again[OF Pair assms(2,3)] KeepPreceding show ?thesis
        by (simp add: to_sql_def)
    qed
  qed
qed

lemma to_sql_distinct:
  "to_sql policy wraps df rows = (x, rows') \<Longrightarrow> \<forall>r\<in>set df. played_at r \<noteq> None \<Longrightarrow>
   distinct (map played_at rows) \<Longrightarrow> distinct (map played_at rows')"
  by (cases "insert_rows rows df"; cases policy)
     (auto simp: to_sql_def split: option.splits dest: insert_rows_distinct)

text \<open>
  On a readable database the loader closes its connection whatever the append did. It
  returns normally when the append raised nothing or \<open>IntegrityError\<close>, and ends with
  the exception of the append otherwise.
\<close>

lemma load_data_Database:
  assumes "db w = Database s"
    and "to_sql policy (pandas_wraps w) df (case s of None \<Rightarrow> [] | Some rows \<Rightarrow> rows)
           = (x, rows')"
  shows "load_data policy df w =
     ((case x of None \<Rightarrow> Inr ()
       | Some e \<Rightarrow> if e = IntegrityError then Inr () else Inl e),
      w\<lparr>db := Database (Some rows'),
        stdout := stdout w @ [Text ''Opened database successfully'']
          @ (case x of None \<Rightarrow> []
             | Some e \<Rightarrow>
                 if e = IntegrityError then [Text ''Data already exists in the database.'']
                 else [])
          @ [Text ''Closed database successfully.'']\<rparr>)"
  using assms
  by (cases s; cases x)
     (simp_all add: load_data_def create_table_if_not_exists_def print_line_def)

text \<open>
  Loading twice a batch that the validator accepts: the table after the second call is
  the table after the first, a table with pairwise distinct \<open>played_at\<close> values keeps
  them so, and both connections are closed again. When pandas lets the exception of
  SQLAlchemy through, both calls return normally; when pandas wraps it, the second call
  ends with \<open>pandas.errors.DatabaseError\<close>.
\<close>

lemma load_data_twice:
  assumes "fst (validate_data now df w0) = Inr True" and "db w = Database s"
  shows "db (snd (load_data policy df (snd (load_data policy df w)))) =
        db (snd (load_data policy df w))
    \<and> open_conns (snd (load_data policy df (snd (load_data policy df w)))) = open_conns w
    \<and> fst (load_data policy df (snd (load_data policy df w))) =
        (if pandas_wraps w then Inl PandasDatabaseError else Inr ())
    \<and> (\<not> pandas_wraps w \<longrightarrow> fst (load_data policy df w) = Inr ())
    \<and> ((\<forall>rows. s = Some rows \<longrightarrow> distinct (map played_at rows)) \<longrightarrow>
        (\<exists>rows'. db (snd (load_data policy df (snd (load_data policy df w)))) =
                   Database (Some rows')
                 \<and> distinct (map played_at rows')))"
proof -
  from assms(1) have ne: "df \<noteq> []" and nn: "\<not> isnull_any df"
    by (simp_all add: validate_data_True_iff)
  from nn have keys: "\<forall>r\<in>set df. played_at r \<noteq> None"
    by (auto simp: isnull_any_iff)
  with ne have hd_key: "played_at (hd df) \<noteq> None"
    by simp
  define rows0 where "rows0 = (case s of None \<Rightarrow> [] | Some rows \<Rightarrow> rows)"
  obtain x rows1 where first: "to_sql policy (pandas_wraps w) df rows0 = (x, rows1)"
    by (cases "to_sql policy (pandas_wraps w) df rows0")
  obtain r1 w1 where l1: "load_data policy df w = (r1, w1)"
    by (cases "load_data policy df w")
  from load_data_Database[OF assms(2)] first l1
  have w1: "db w1 = Database (Some rows1)" "pandas_wraps w1 = pandas_wraps w"
      "open_conns w1 = open_conns w"
    and r1: "r1 = (case x of None \<Rightarrow> Inr ()
                   | Some e \<Rightarrow> if e = IntegrityError then Inr () else Inl e)"
    by (auto simp: rows0_def)
  have second: "to_sql policy (pandas_wraps w1) df rows1 =
      (Some (if pandas_wraps w then PandasDatabaseError else IntegrityError), rows1)"
    using to_sql_again[OF first ne hd_key] w1(2) by simp
  from load_data_Database[OF w1(1), of policy df _ rows1] second
  have l2: "fst (load_data policy df w1) =
        (if pandas_wraps w then Inl PandasDatabaseError else Inr ())"
    and d2: "db (snd (load_data policy df w1)) = Database (Some rows1)"
    and c2: "open_conns (snd (load_data policy df w1)) = open_conns w1"
    by simp_all
  have ok1: "r1 = Inr ()" if "\<not> pandas_wraps w"
  proof (cases x)
    case None
    with r1 show ?thesis by simp
  next
    case (Some e)
    with first that have "e = IntegrityError"
      by (cases "insert_rows rows0 df")
         (auto simp: to_sql_def split: option.splits dest: insert_rows_error)
    with Some r1 show ?thesis by simp
  qed
  have "distinct (map played_at rows1)"
    if "\<forall>rows. s = Some rows \<longrightarrow> distinct (map played_at rows)"
  proof -
    from that have "distinct (map played_at rows0)"
      by (cases s) (simp_all add: rows0_def)
    with first keys show ?thesis
      by (rule to_sql_distinct)
  qed
  with l1 l2 d2 c2 w1 ok1 show ?thesis
    by simp
qed

section \<open>The claims\<close>

subsection \<open>The validator\<close>



text \<open>
  Claim C2. When two records of a batch share their \<open>played_at\<close> value,
  \<open>validate_data\<close> raises \<open>PrimaryKeyError\<close> and leaves the world as it was; and a
  run of \<open>main\<close> that transforms the payload into such a batch ends with that
  exception after printing the batch: the database and the count of open connections
  are as before, so \<open>load_data\<close> was not called and nothing was written.
\<close>

theorem duplicate_played_at_PrimaryKeyError:
  assumes "df \<noteq> []" and "i < length df" and "j < length df" and "i \<noteq> j"
    and "played_at (df ! i) = played_at (df ! j)"
  shows "validate_data now df w = (Inl PrimaryKeyError, w)
    \<and> (upstream w (mktime (replace_midnight now1) * 1000) = Some data
         \<and> transform_data data = Inr df
       \<longrightarrow> main mktime policy now1 now w =
            (Inl PrimaryKeyError,
             w\<lparr>requests := requests w @ [mktime (replace_midnight now1) * 1000],
               stdout := stdout w @ [Frame df]\<rparr>))"
proof -
  have "\<not> distinct (map played_at df)"
    using assms(2-5) by (auto simp: distinct_conv_nth)
  then have v: "validate_data now df w' = (Inl PrimaryKeyError, w')" for w'
    using assms(1) by (simp add: validate_data_def)
  show ?thesis
    by (simp add: v main_def extract_eq print_line_def)
qed

text \<open>
  The scenario of the specification: songs A and B played at the same instant.
\<close>

theorem duplicate_played_at_PrimaryKeyError_witness:
  "validate_data example_now [record_A, record_B_same_instant]
       (answering (Some (Payload [song_A, song_B_same_instant]))) =
     (Inl PrimaryKeyError, answering (Some (Payload [song_A, song_B_same_instant])))
   \<and> main example_mktime Rollback example_now example_now
       (answering (Some (Payload [song_A, song_B_same_instant]))) =
     (Inl PrimaryKeyError,
      (answering (Some (Payload [song_A, song_B_same_instant])))
        \<lparr>requests := [1704067200000],
         stdout := [Frame [record_A, record_B_same_instant]]\<rparr>)"
proof -
  have t: "transform_data (Payload [song_A, song_B_same_instant])
      = Inr [record_A, record_B_same_instant]"
    by (simp add: transform_data_def DataFrame_def song_A_def song_B_same_instant_def
        example_records)
  have k: "played_at ([record_A, record_B_same_instant] ! 0)
      = played_at ([record_A, record_B_same_instant] ! 1)"
    by (simp add: example_records)
  show ?thesis
    using duplicate_played_at_PrimaryKeyError [of "[record_A, record_B_same_instant]" 0 1
        example_now "answering (Some (Payload [song_A, song_B_same_instant]))"
        example_mktime example_now "Payload [song_A, song_B_same_instant]" Rollback] t k
    by (simp add: example_run)
qed

text \<open>
  Claim C3, as it holds. In a batch that is not empty and whose \<open>played_at\<close> values
  are pairwise distinct, a record with a null in one of its four fields makes
  \<open>validate_data\<close> raise \<open>NullValuesError\<close>. An empty text is not a null: the claim
  as stated, which counts it as one, fails on the record with the empty title.
\<close>

theorem null_field_NullValuesError:
  assumes "df \<noteq> []" and "distinct (map played_at df)" and "r \<in> set df"
    and "song_name r = None \<or> artist_name r = None \<or> played_at r = None \<or> timestamp r = None"
  shows "validate_data now df w = (Inl NullValuesError, w)"
  using assms by (auto simp: validate_data_def isnull_any_iff)

theorem null_field_NullValuesError_witness:
  "validate_data example_now [record_B, record_no_artist] (answering None) =
     (Inl NullValuesError, answering None)"
  using null_field_NullValuesError [of "[record_B, record_no_artist]" record_no_artist
      example_now "answering None"]
  by (simp add: example_records)

theorem empty_text_passes_null_check:
  "[record_empty_title] \<noteq> [] \<and> distinct (map played_at [record_empty_title])
   \<and> song_name record_empty_title = Some []
   \<and> validate_data example_now [record_empty_title] (answering None) =
       (Inr True, answering None)"
  by (simp add: validate_data_def isnull_any_def example_records example_run strptime_eval)

text \<open>
  Claim C4 at a timestamp that is not a date. The record passes the uniqueness and
  null checks and its timestamp is not today's date, yet what \<open>validate_data\<close>
  raises is the \<open>ValueError\<close> of \<open>strptime\<close>, not \<open>InvalidTimestampError\<close>.
\<close>

theorem malformed_timestamp_ValueError:
  "distinct (map played_at [record_malformed]) \<and> \<not> isnull_any [record_malformed]
   \<and> \<not> todays_date example_now (timestamp record_malformed)
   \<and> validate_data example_now [record_malformed] (answering None) =
       (Inl ValueError, answering None)"
  by (simp add: validate_data_def isnull_any_def todays_date_def example_records example_run
      strptime_eval)

text \<open>
  Claim C10, as it holds. In a batch that passes the uniqueness and null checks, a
  record whose timestamp \<open>strptime\<close> cannot parse makes \<open>validate_data\<close> raise
  \<open>ValueError\<close> when every record before it has today's date. The claim as stated
  asks nothing of the records before it, and fails when one of them has another
  day's date: \<open>any\<close> stops there, and the exception is \<open>InvalidTimestampError\<close>.
\<close>

theorem unparseable_timestamp_ValueError:
  assumes "df = before @ r # rest" and "distinct (map played_at df)"
    and "\<forall>x\<in>set df. song_name x \<noteq> None \<and> artist_name x \<noteq> None \<and> played_at x \<noteq> None
                    \<and> timestamp x \<noteq> None"
    and "\<forall>x\<in>set before. todays_date now (timestamp x)"
    and "timestamp r = Some s" and "strptime s = Inl ValueError"
  shows "validate_data now df w = (Inl ValueError, w)"
proof -
  have "\<forall>ts\<in>set (map timestamp before).
          \<exists>s. ts = Some s \<and> strptime s = Inr (replace_midnight now)"
    using assms(4) by (auto simp: todays_date_def split: option.splits)
  from any_not_today_append[OF this]
  have "any_not_today (replace_midnight now) (map timestamp df) = Inl ValueError"
    using assms(1,5,6) by simp
  moreover have "\<not> isnull_any df"
    using assms(3) by (auto simp: isnull_any_iff)
  ultimately show ?thesis
    using assms(1,2) by (simp add: validate_data_def)
qed

theorem unparseable_timestamp_ValueError_witness:
  "validate_data example_now [record_A, record_no_date, record_yesterday] (answering None) =
     (Inl ValueError, answering None)"
  using unparseable_timestamp_ValueError [of "[record_A, record_no_date, record_yesterday]"
      "[record_A]" record_no_date "[record_yesterday]" example_now "[]" "answering None"]
  by (simp add: example_records example_run strptime_eval todays_date_def)

theorem unparseable_after_stale_InvalidTimestampError:
  "distinct (map played_at [record_yesterday, record_malformed])
   \<and> \<not> isnull_any [record_yesterday, record_malformed]
   \<and> timestamp record_malformed = Some ''garbage''
   \<and> strptime ''garbage'' = Inl ValueError
   \<and> validate_data example_now [record_yesterday, record_malformed] (answering None) =
       (Inl InvalidTimestampError, answering None)"
  by (simp add: validate_data_def isnull_any_def example_records example_run strptime_eval)

subsection \<open>The loader\<close>

text \<open>
  Claim C5 with pandas 3 installed. Record A is accepted by the validator and loaded
  twice into a database without a table. The first call returns normally. On the
  second the append hits the primary key, the exception that leaves \<open>to_sql\<close> is
  \<open>pandas.errors.DatabaseError\<close>, which line 161 does not catch, and \<open>load_data\<close>
  ends with it: the table still holds the one row and the connection is closed, but
  the exception reaches the caller and the line about existing data is not printed.
\<close>

theorem second_load_raises_with_pandas_3:
  "pandas_wraps pandas_3 \<and> db pandas_3 = Database None
   \<and> fst (validate_data example_now [record_A] pandas_3) = Inr True
   \<and> load_data Rollback [record_A] pandas_3 =
       (Inr (), pandas_3\<lparr>db := Database (Some [record_A]),
                  stdout := [Text ''Opened database successfully'',
                             Text ''Closed database successfully.'']\<rparr>)
   \<and> load_data Rollback [record_A] (snd (load_data Rollback [record_A] pandas_3)) =
       (Inl PandasDatabaseError,
        pandas_3\<lparr>db := Database (Some [record_A]),
                  stdout := [Text ''Opened database successfully'',
                             Text ''Closed database successfully.'',
                             Text ''Opened database successfully'',
                             Text ''Closed database successfully.'']\<rparr>)"
proof -
  have v: "fst (validate_data example_now [record_A] pandas_3) = Inr True"
    by (simp add: validate_data_def isnull_any_def example_records example_run strptime_eval)
  have once: "load_data Rollback [record_A] pandas_3 =
       (Inr (), pandas_3\<lparr>db := Database (Some [record_A]),
                  stdout := [Text ''Opened database successfully'',
                             Text ''Closed database successfully.'']\<rparr>)"
    by (simp add: load_data_def create_table_if_not_exists_def to_sql_def conflicts_def
        pandas_3_def answering_def print_line_def record_A_def)
  have twice: "load_data Rollback [record_A]
       (pandas_3\<lparr>db := Database (Some [record_A]),
                  stdout := [Text ''Opened database successfully'',
                             Text ''Closed database successfully.'']\<rparr>) =
       (Inl PandasDatabaseError,
        pandas_3\<lparr>db := Database (Some [record_A]),
                  stdout := [Text ''Opened database successfully'',
                             Text ''Closed database successfully.'',
                             Text ''Opened database successfully'',
                             Text ''Closed database successfully.'']\<rparr>)"
    by (simp add: load_data_def create_table_if_not_exists_def to_sql_def conflicts_def
        pandas_3_def answering_def print_line_def record_A_def)
  show ?thesis
    using v once twice by (simp add: pandas_3_def answering_def)
qed

text \<open>
  Claim C6 on a file that is not a database. \<open>sqlite3.connect\<close> opens the
  connection, the \<open>CREATE TABLE\<close> statement raises before the \<open>try\<close> is entered, and
  \<open>load_data\<close> ends with that exception and the connection still open.
\<close>

theorem load_data_leaves_connection_open:
  "open_conns not_a_database = 0
   \<and> load_data Rollback [record_A] not_a_database =
       (Inl DatabaseError, not_a_database\<lparr>open_conns := 1\<rparr>)"
  by (simp add: load_data_def not_a_database_def answering_def create_table_if_not_exists_def)

subsection \<open>The transformer\<close>

text \<open>
  Claim C7. When every item of the payload has at least one artist on its album and a
  \<open>played_at\<close> that is text, \<open>transform_data\<close> returns one record per item, in the
  order of the items, with the four columns \<open>song_name\<close>, \<open>artist_name\<close>,
  \<open>played_at\<close>, \<open>timestamp\<close>: the track's name, the name of the first artist of
  the track's album, \<open>played_at\<close> and its first ten characters.
\<close>

theorem transform_data_one_record_per_item:
  assumes "\<forall>e\<in>set (items data). artists (album (track e)) \<noteq> [] \<and> event_played_at e \<noteq> None"
  shows "transform_data data =
     Inr (map (\<lambda>e. \<lparr>song_name = track_name (track e),
                     artist_name = name (hd (artists (album (track e)))),
                     played_at = event_played_at e,
                     timestamp = map_option (take 10) (event_played_at e)\<rparr>) (items data))"
  by (simp add: transform_data_def transform_loop_acc[OF assms] DataFrame_maps)

theorem transform_data_one_record_per_item_witness:
  "transform_data (Payload [song_A, song_B]) = Inr [record_A, record_B]"
  using transform_data_one_record_per_item [of "Payload [song_A, song_B]"]
  by (simp add: song_A_def song_B_def example_records)

subsection \<open>The extractor\<close>

text \<open>
  Claim C8, as it holds. When the service gives a falsy answer to the request,
  \<open>extract_recently_played\<close> raises Python's \<open>ValueError\<close>, and otherwise it returns
  the answer; \<open>main\<close> does not catch the exception, so the run ends with it, the
  database untouched. The source has no \<open>ExtractionError\<close>: the claim as stated
  names an exception that is never raised.
\<close>

theorem no_data_ValueError:
  "fst (extract_recently_played mktime now w) =
     (case upstream w (mktime (replace_midnight now) * 1000) of
        None \<Rightarrow> Inl ValueError
      | Some data \<Rightarrow> Inr data)
   \<and> (upstream w (mktime (replace_midnight now) * 1000) = None \<longrightarrow>
        main mktime policy now now2 w =
          (Inl ValueError, w\<lparr>requests := requests w @ [mktime (replace_midnight now) * 1000]\<rparr>))"
  by (simp add: main_def extract_eq split: option.split)

theorem no_data_ValueError_witness:
  "fst (extract_recently_played example_mktime example_now (answering None)) = Inl ValueError
   \<and> fst (extract_recently_played example_mktime example_now
            (answering (Some (Payload [song_A])))) = Inr (Payload [song_A])
   \<and> main example_mktime Rollback example_now example_now (answering None) =
       (Inl ValueError, (answering None)\<lparr>requests := [1704067200000]\<rparr>)"
  using no_data_ValueError [of example_mktime example_now "answering None" Rollback example_now]
    no_data_ValueError [of example_mktime example_now "answering (Some (Payload [song_A]))"]
  by (simp add: example_run)

theorem no_data_not_ExtractionError:
  "upstream (answering None) 1704067200000 = None
   \<and> requests (snd (extract_recently_played example_mktime example_now (answering None))) =
       [1704067200000]
   \<and> fst (extract_recently_played example_mktime example_now (answering None)) \<noteq>
       Inl ExtractionError"
  by (simp add: extract_recently_played_def Let_def py_int_def dt_timestamp_def example_run)



end
